theory Spec2Isabelle
  imports Main "HOL-Library.Char_ord" "HOL-Library.List_Lexorder"
begin

section \<open>Event aggregation: the model of main.py\<close>

text \<open>
  The program reads a CSV of customer events, counts them per (customer, minute) in an
  in-memory dictionary, upserts that dictionary into the table \<open>events_aggregation\<close> every
  time it holds 1000 keys and once more at the end, and answers hourly roll-up queries.

  Python exceptions are values of \<open>py_error\<close>; a function that may raise returns a sum with
  the exception on the left.
\<close>

datatype py_error =
  ValueError          \<comment> \<open>\<open>str.index\<close> without a match, a failed parse\<close>
  | AttributeError    \<comment> \<open>a method called on \<open>None\<close>\<close>
  | OverflowError     \<comment> \<open>datetime arithmetic out of range\<close>
  | OperationalError  \<comment> \<open>an error raised by sqlite3\<close>
  | SystemExit        \<comment> \<open>\<open>sys.exit()\<close>\<close>

subsection \<open>Datetimes\<close>

text \<open>
  The fields of a Python \<open>datetime\<close>. The values the program keeps are all in UTC (they come
  out of \<open>astimezone(pytz.utc)\<close>), so the record carries no zone; a parsed, zone-aware value
  is a pair of the fields and the offset from UTC in seconds.
\<close>

record datetime =
  year :: int
  month :: int
  day :: int
  hour :: int
  minute :: int
  second :: int
  microsecond :: int

type_synonym aware = "datetime \<times> int"

text \<open>
  The proleptic Gregorian calendar of Python's \<open>datetime\<close> module (ordinal 1 is
  0001-01-01), after its functions \<open>_is_leap\<close>, \<open>_days_in_month\<close>, \<open>_days_before_year\<close>,
  \<open>_days_before_month\<close>, \<open>_ymd2ord\<close> and \<open>_ord2ymd\<close>. A remainder is never negative, so
  \<open>year % 100 != 0\<close> is written \<open>0 < y mod 100\<close>; in \<open>_ord2ymd\<close> the count \<open>n4\<close> of
  four-year cycles is at most 24, so \<open>n4 != 24\<close> is written \<open>n4 < 24\<close>.
\<close>

definition is_leap :: "int \<Rightarrow> bool" where
  "is_leap y = (y mod 4 = 0 \<and> (0 < y mod 100 \<or> y mod 400 = 0))"

definition month_lengths :: "int list" where
  "month_lengths = [31, 28, 31, 30, 31, 30, 31, 31, 30, 31, 30, 31]"

definition days_in_month :: "int \<Rightarrow> int \<Rightarrow> int" where
  "days_in_month y m = (if m = 2 \<and> is_leap y then 29 else month_lengths ! nat (m - 1))"

definition days_before_year :: "int \<Rightarrow> int" where
  "days_before_year y = (let p = y - 1 in p * 365 + p div 4 - p div 100 + p div 400)"

definition days_before_month :: "int \<Rightarrow> int \<Rightarrow> int" where
  "days_before_month y m =
     sum_list (take (nat (m - 1)) month_lengths) + (if 2 < m \<and> is_leap y then 1 else 0)"

definition ymd2ord :: "int \<Rightarrow> int \<Rightarrow> int \<Rightarrow> int" where
  "ymd2ord y m d = days_before_year y + days_before_month y m + d"

definition ord2ymd :: "int \<Rightarrow> int \<times> int \<times> int" where
  "ord2ymd ordinal =
     (let n = ordinal - 1;
          n400 = n div 146097; n = n mod 146097;
          n100 = n div 36524; n = n mod 36524;
          n4 = n div 1461; n = n mod 1461;
          n1 = n div 365; n = n mod 365;
          y = n400 * 400 + 1 + n100 * 100 + n4 * 4 + n1
      in if n1 = 4 \<or> n100 = 4 then (y - 1, 12, 31)
         else
           let leapyear = (n1 = 3 \<and> (n4 < 24 \<or> n100 = 3));
               m = (n + 50) div 32;
               preceding = sum_list (take (nat (m - 1)) month_lengths)
                             + (if 2 < m \<and> leapyear then 1 else 0)
           in if n < preceding
              then (y, m - 1,
                    n - (preceding
                           - (month_lengths ! nat (m - 2)
                                + (if m = 3 \<and> leapyear then 1 else 0))) + 1)
              else (y, m, n - preceding + 1))"

text \<open>
  \<open>dt.astimezone(pytz.utc)\<close>: the same instant read in UTC. Python subtracts the offset
  and raises OverflowError when the date leaves 0001-01-01 .. 9999-12-31.
\<close>

definition astimezone_utc :: "aware \<Rightarrow> py_error + datetime" where
  "astimezone_utc a =
     (let dt = fst a;
          secs = hour dt * 3600 + minute dt * 60 + second dt - snd a;
          days = ymd2ord (year dt) (month dt) (day dt) + secs div 86400;
          rest = secs mod 86400
      in if days < 1 \<or> 3652059 < days then Inl OverflowError
         else (case ord2ymd days of
                 (y, m, d) \<Rightarrow>
                   Inr \<lparr>year = y, month = m, day = d,
                        hour = rest div 3600, minute = rest mod 3600 div 60,
                        second = rest mod 60, microsecond = microsecond dt\<rparr>))"

subsection \<open>The strict parse\<close>

definition is_digit :: "char \<Rightarrow> bool" where
  "is_digit c = (CHR ''0'' \<le> c \<and> c \<le> CHR ''9'')"

definition int_of_digits :: "string \<Rightarrow> int" where
  "int_of_digits s = foldl (\<lambda>a c. 10 * a + (of_char c - 48)) 0 s"

text \<open>
  \<open>datetime.strptime(timestamp, '%Y-%m-%d %H:%M:%S.%f%z')\<close> on the layout the input file
  uses: four, two and two digits for the date, one space, two digits each for hour, minute
  and second, a dot, one to six digits of fraction, a sign and four digits of offset. On a
  string of this layout the result is Python's, and None stands for its ValueError (a field
  out of range, a day the month does not have, an offset of 24 hours or more). The library
  accepts a few more spellings (one-digit fields, a colon or seconds in the offset, \<open>Z\<close>);
  the model hands every string outside the layout to the fallback parser of
  \<open>rfc_to_utc_dt\<close>, which its theorems leave arbitrary.
\<close>

definition strptime :: "string \<Rightarrow> aware option" where
  "strptime s =
     (let n = length s in
      if n < 26 \<or> 31 < n then None
      else
        let Y = take 4 s; m = take 2 (drop 5 s); d = take 2 (drop 8 s);
            H = take 2 (drop 11 s); M = take 2 (drop 14 s); S = take 2 (drop 17 s);
            f = take (n - 25) (drop 20 s);
            sign = s ! (n - 5); zh = take 2 (drop (n - 4) s); zm = drop (n - 2) s;
            y = int_of_digits Y; mo = int_of_digits m; dd = int_of_digits d;
            off = int_of_digits zh * 3600 + int_of_digits zm * 60
        in if s ! 4 = CHR ''-'' \<and> s ! 7 = CHR ''-'' \<and> s ! 10 = CHR '' ''
              \<and> s ! 13 = CHR '':'' \<and> s ! 16 = CHR '':'' \<and> s ! 19 = CHR ''.''
              \<and> (sign = CHR ''+'' \<or> sign = CHR ''-'')
              \<and> list_all is_digit (Y @ m @ d @ H @ M @ S @ f @ zh @ zm)
              \<and> 1 \<le> y \<and> 1 \<le> mo \<and> mo \<le> 12 \<and> 1 \<le> dd \<and> dd \<le> days_in_month y mo
              \<and> int_of_digits H \<le> 23 \<and> int_of_digits M \<le> 59 \<and> int_of_digits S \<le> 59
              \<and> int_of_digits zh \<le> 23 \<and> int_of_digits zm \<le> 59
           then Some (\<lparr>year = y, month = mo, day = dd,
                        hour = int_of_digits H, minute = int_of_digits M,
                        second = int_of_digits S,
                        microsecond = int_of_digits f * 10 ^ (6 - length f)\<rparr>,
                      if sign = CHR ''-'' then - off else off)
           else None)"

subsection \<open>rfc_to_utc_dt\<close>

text \<open>\<open>s.index(c)\<close>: the position of the first \<open>c\<close>; None stands for the ValueError.\<close>

fun str_index :: "string \<Rightarrow> char \<Rightarrow> nat option" where
  "str_index [] c = None"
| "str_index (x # xs) c = (if x = c then Some 0 else map_option Suc (str_index xs c))"

text \<open>
  Lines 54 to 57: the characters after the first \<open>+\<close> are counted, and unless there are
  exactly four the string gets \<open>4 - tz_info_len\<close> zeros appended. In Python a string
  repeated a negative number of times is empty, which the truncating subtraction on
  \<open>nat\<close> gives too.
\<close>

definition pad_tz_info :: "string \<Rightarrow> py_error + string" where
  "pad_tz_info timestamp =
     (case str_index timestamp CHR ''+'' of
        None \<Rightarrow> Inl ValueError
      | Some tz_info_idx \<Rightarrow>
          let tz_info_len = length timestamp - (tz_info_idx + 1)
          in if tz_info_len \<noteq> 4
             then Inr (timestamp @ replicate (4 - tz_info_len) CHR ''0'')
             else Inr timestamp)"

text \<open>
  The fallback \<open>dateutil.parser.parse\<close> is a library heuristic; it is a parameter of the
  model (together with the rule that reads a zone-less result in the machine's zone), and
  every theorem holds for any such function.
\<close>

type_synonym parser = "string \<Rightarrow> py_error + aware"

definition rfc_to_utc_dt :: "parser \<Rightarrow> string \<Rightarrow> py_error + datetime" where
  "rfc_to_utc_dt parse timestamp =
     (case pad_tz_info timestamp of
        Inl e \<Rightarrow> Inl e
      | Inr padded \<Rightarrow>
          (case strptime padded of
             Some dt \<Rightarrow> astimezone_utc dt
           | None \<Rightarrow>
               (case parse padded of
                  Inl e \<Rightarrow> Inl e
                | Inr dt \<Rightarrow> astimezone_utc dt)))"

text \<open>\<open>utc_dt.replace(second=0, microsecond=0)\<close>, line 115.\<close>

definition round_to_minute :: "datetime \<Rightarrow> datetime" where
  "round_to_minute utc_dt = utc_dt\<lparr>second := 0, microsecond := 0\<rparr>"

subsection \<open>Dictionaries\<close>

text \<open>
  A Python dict is an association list in insertion order with distinct keys: assigning
  to a key that is present replaces its value in place, assigning to a new key appends.
\<close>

fun dict_set :: "'k \<Rightarrow> 'v \<Rightarrow> ('k \<times> 'v) list \<Rightarrow> ('k \<times> 'v) list" where
  "dict_set k v [] = [(k, v)]"
| "dict_set k v (p # ps) = (if fst p = k then (k, v) # ps else p # dict_set k v ps)"

type_synonym key = "string \<times> datetime"
type_synonym buffer = "(key \<times> int) list"

text \<open>
  \<open>event_count[key] += 1\<close> on a \<open>defaultdict(lambda: 0)\<close>: a missing key reads as 0.
\<close>

definition increment :: "key \<Rightarrow> buffer \<Rightarrow> buffer" where
  "increment k event_count =
     dict_set k ((case map_of event_count k of None \<Rightarrow> 0 | Some n \<Rightarrow> n) + 1) event_count"

subsection \<open>The table events_aggregation and batch_commit\<close>

text \<open>
  The table is the list of its rows \<open>((customer_id, minute), event_count)\<close> in insertion
  order. The statement of \<open>batch_commit\<close> names the conflict target
  \<open>(customer_id, minute)\<close>, so the table has a uniqueness constraint on that pair: the rows
  have distinct keys. sqlite3 stores a datetime as the text \<open>isoformat\<close> prints (below),
  which determines the datetime, so a row is identified here by the datetime itself. Counts
  are Python's unbounded integers; the 64-bit limit of an SQLite integer is not modelled.

  \<open>INSERT ... ON CONFLICT(customer_id, minute) DO UPDATE SET
  event_count=event_count+EXCLUDED.event_count\<close> for one parameter tuple:
\<close>

type_synonym table = "(key \<times> int) list"
type_synonym entry = "string \<times> datetime \<times> int"

fun upsert :: "'k \<Rightarrow> int \<Rightarrow> ('k \<times> int) list \<Rightarrow> ('k \<times> int) list" where
  "upsert k n [] = [(k, n)]"
| "upsert k n (r # rs) = (if fst r = k then (k, snd r + n) # rs else r # upsert k n rs)"

text \<open>
  The durable state: the committed rows, the batches committed so far in commit order (a
  history of the transactions, kept to state which flushes happened), and the storage
  faults to come. \<open>batch_commit\<close> runs on a connection of its own (each
  \<open>app.app_context()\<close> opens one and closes it on exit), and the head of \<open>faults\<close> decides
  how that connection fares: \<open>None\<close> (or no entry) is a healthy one, \<open>Some i\<close> makes the
  statement for the \<open>i\<close>-th tuple raise, or the commit when the batch has no \<open>i\<close>-th tuple.
\<close>

record store =
  events_aggregation :: table
  committed :: "entry list list"
  faults :: "nat option list"

text \<open>
  \<open>cur.executemany(insert, data)\<close>: sqlite3 opens a transaction before the first INSERT
  and runs the statement once per tuple on the connection's view of the table.
\<close>

fun executemany :: "nat option \<Rightarrow> entry list \<Rightarrow> table \<Rightarrow> py_error + table" where
  "executemany fault [] t = Inr t"
| "executemany fault ((c, m, n) # data) t =
     (if fault = Some 0 then Inl OperationalError
      else executemany (map_option (\<lambda>i. i - 1) fault) data (upsert (c, m) n t))"

text \<open>
  \<open>batch_commit\<close>, lines 69 to 92. An exception leaves the \<open>with\<close> block before
  \<open>conn.commit()\<close>; the connection is closed with its transaction open and SQLite rolls
  the transaction back, so the committed rows stay as they were.
\<close>

definition batch_commit :: "buffer \<Rightarrow> store \<Rightarrow> (py_error \<times> store) + store" where
  "batch_commit event_count db =
     (let data = map (\<lambda>((c, m), n). (c, m, n)) event_count;
          fault = (case faults db of [] \<Rightarrow> None | f # _ \<Rightarrow> f);
          db = db\<lparr>faults := tl (faults db)\<rparr>
      in case executemany fault data (events_aggregation db) of
           Inl e \<Rightarrow> Inl (e, db)
         | Inr work \<Rightarrow>
             (case fault of
                Some _ \<Rightarrow> Inl (OperationalError, db)
              | None \<Rightarrow>
                  Inr (db\<lparr>events_aggregation := work, committed := committed db @ [data]\<rparr>)))"

subsection \<open>process_csv\<close>

text \<open>
  A line of the file as \<open>csv.DictReader\<close> hands it over, with its four fields present.
\<close>

record row =
  customer_id :: string
  event_type :: string
  txn_id :: string
  timestamp :: string

text \<open>
  The state of a run: the local dictionary \<open>event_count\<close> and the database. A raised
  exception is returned with the state it leaves behind.
\<close>

record state =
  event_count :: buffer
  db :: store

text \<open>Lines 105 to 109, with the literal \<open>1_000\<close> as the parameter \<open>threshold\<close>.\<close>

definition flush_if_full :: "nat \<Rightarrow> state \<Rightarrow> (py_error \<times> state) + state" where
  "flush_if_full threshold s =
     (if threshold \<le> length (event_count s)
      then (case batch_commit (event_count s) (db s) of
              Inl (e, d) \<Rightarrow> Inl (e, s\<lparr>db := d\<rparr>)
            | Inr d \<Rightarrow> Inr \<lparr>event_count = [], db = d\<rparr>)
      else Inr s)"

text \<open>Lines 112 to 116.\<close>

definition count_event :: "parser \<Rightarrow> row \<Rightarrow> state \<Rightarrow> (py_error \<times> state) + state" where
  "count_event parse r s =
     (case rfc_to_utc_dt parse (timestamp r) of
        Inl e \<Rightarrow> Inl (e, s)
      | Inr utc_dt \<Rightarrow>
          Inr (s\<lparr>event_count :=
                   increment (customer_id r, round_to_minute utc_dt) (event_count s)\<rparr>))"

definition process_row :: "nat \<Rightarrow> parser \<Rightarrow> row \<Rightarrow> state \<Rightarrow> (py_error \<times> state) + state" where
  "process_row threshold parse r s =
     (case flush_if_full threshold s of
        Inl x \<Rightarrow> Inl x
      | Inr s' \<Rightarrow> count_event parse r s')"

text \<open>The \<open>for\<close> loop over the reader.\<close>

fun process_rows :: "nat \<Rightarrow> parser \<Rightarrow> row list \<Rightarrow> state \<Rightarrow> (py_error \<times> state) + state" where
  "process_rows threshold parse [] s = Inr s"
| "process_rows threshold parse (r # rs) s =
     (case process_row threshold parse r s of
        Inl x \<Rightarrow> Inl x
      | Inr s' \<Rightarrow> process_rows threshold parse rs s')"

text \<open>
  The whole function for a given threshold: the loop from an empty dictionary, then the
  last \<open>batch_commit\<close> of line 118. \<open>process_csv\<close> is the program's, with 1000.
\<close>

definition process_csv_threshold :: "nat \<Rightarrow> parser \<Rightarrow> row list \<Rightarrow> store \<Rightarrow> (py_error \<times> state) + state" where
  "process_csv_threshold threshold parse rows d =
     (case process_rows threshold parse rows \<lparr>event_count = [], db = d\<rparr> of
        Inl x \<Rightarrow> Inl x
      | Inr s \<Rightarrow>
          (case batch_commit (event_count s) (db s) of
             Inl (e, d') \<Rightarrow> Inl (e, s\<lparr>db := d'\<rparr>)
           | Inr d' \<Rightarrow> Inr (s\<lparr>db := d'\<rparr>)))"

definition process_csv :: "parser \<Rightarrow> row list \<Rightarrow> store \<Rightarrow> (py_error \<times> state) + state" where
  "process_csv = process_csv_threshold 1000"

subsection \<open>hourly_event_count\<close>

text \<open>Decimal digits of a non-negative integer, and \<open>'%0wd'\<close>.\<close>

function decimal :: "int \<Rightarrow> string" where
  "decimal n =
     (if n < 10 then [char_of (48 + n)] else decimal (n div 10) @ [char_of (48 + n mod 10)])"
  by pat_completeness auto
termination
  by (relation "measure nat") auto

declare decimal.simps [simp del]

definition zero_pad :: "nat \<Rightarrow> int \<Rightarrow> string" where
  "zero_pad w n = replicate (w - length (decimal n)) CHR ''0'' @ decimal n"

text \<open>
  \<open>str(dt)\<close> of a datetime in UTC, which is also the text sqlite3 binds for a datetime
  parameter: \<open>YYYY-MM-DD HH:MM:SS+00:00\<close>, with \<open>.ffffff\<close> after the seconds when the
  microseconds are not zero.
\<close>

definition isoformat :: "datetime \<Rightarrow> string" where
  "isoformat dt =
     zero_pad 4 (year dt) @ ''-'' @ zero_pad 2 (month dt) @ ''-'' @ zero_pad 2 (day dt) @ '' ''
       @ zero_pad 2 (hour dt) @ '':'' @ zero_pad 2 (minute dt) @ '':'' @ zero_pad 2 (second dt)
       @ (if microsecond dt \<noteq> 0 then ''.'' @ zero_pad 6 (microsecond dt) else [])
       @ ''+00:00''"

text \<open>SQLite's \<open>strftime('%Y-%m-%d %H', minute)\<close> on the stored text of a minute.\<close>

definition strftime_hour :: "datetime \<Rightarrow> string" where
  "strftime_hour dt =
     zero_pad 4 (year dt) @ ''-'' @ zero_pad 2 (month dt) @ ''-'' @ zero_pad 2 (day dt) @ '' ''
       @ zero_pad 2 (hour dt)"

text \<open>
  The SELECT of lines 152 to 159 on the parameters \<open>[str(start_dt), str(end_dt),
  customer_id]\<close>. SQLite compares the texts byte by byte, which is the lexicographic order
  on strings; a NULL \<open>customer_id\<close> parameter (Python's \<open>None\<close>) equals no row's. The rows
  that pass are grouped by their hour text and the counts of a group are summed.
\<close>

definition select_hours :: "table \<Rightarrow> string \<Rightarrow> string \<Rightarrow> string option \<Rightarrow> (string \<times> int) list" where
  "select_hours t start_text end_text customer =
     fold (\<lambda>((c, m), n) groups. upsert (strftime_hour m) n groups)
       (filter (\<lambda>((c, m), n). start_text \<le> isoformat m \<and> isoformat m < end_text
                                 \<and> customer = Some c) t)
       []"

text \<open>
  \<open>str(pytz.utc.localize(parse(hour['hour'])))\<close>: dateutil reads \<open>YYYY-MM-DD HH\<close> as that
  hour with minutes and seconds zero, and the result is printed in UTC.
\<close>

definition hour_key :: "string \<Rightarrow> string" where
  "hour_key h = h @ '':00:00+00:00''"

text \<open>
  \<open>hourly_event_count\<close>, lines 133 to 169. The arguments may be \<open>None\<close> (the route passes
  what \<open>request.args.get\<close> returns); \<open>rfc_to_utc_dt(None)\<close> raises AttributeError at
  \<open>timestamp.index\<close>. The result is the dict \<open>event_counts\<close>.
\<close>

definition hourly_event_count ::
  "parser \<Rightarrow> store \<Rightarrow> string option \<Rightarrow> string option \<Rightarrow> string option
     \<Rightarrow> py_error + (string \<times> int) list" where
  "hourly_event_count parse d customer start end =
     (case start of
        None \<Rightarrow> Inl AttributeError
      | Some start_str \<Rightarrow>
          (case rfc_to_utc_dt parse start_str of
             Inl e \<Rightarrow> Inl e
           | Inr start_dt \<Rightarrow>
               (case end of
                  None \<Rightarrow> Inl AttributeError
                | Some end_str \<Rightarrow>
                    (case rfc_to_utc_dt parse end_str of
                       Inl e \<Rightarrow> Inl e
                     | Inr end_dt \<Rightarrow>
                         Inr (fold (\<lambda>(h, total) event_counts. dict_set (hour_key h) total event_counts)
                                (select_hours (events_aggregation d) (isoformat start_dt)
                                   (isoformat end_dt) customer)
                                [])))))"

subsection \<open>The route and the command line\<close>

text \<open>The query parameters of a request, \<open>None\<close> when absent (\<open>args.get\<close>).\<close>

record request =
  arg_customer_id :: "string option"
  arg_start :: "string option"
  arg_end :: "string option"

text \<open>
  \<open>hourly_event_count_route\<close>, lines 177 to 186; the JSON text of the dict is not
  modelled. An exception that leaves the view makes Flask answer 500.
\<close>

definition hourly_event_count_route :: "parser \<Rightarrow> store \<Rightarrow> request \<Rightarrow> py_error + (string \<times> int) list" where
  "hourly_event_count_route parse d args =
     hourly_event_count parse d (arg_customer_id args) (arg_start args) (arg_end args)"

text \<open>\<open>not x\<close> for an optional string: true for \<open>None\<close> and for the empty string.\<close>

definition py_not :: "string option \<Rightarrow> bool" where
  "py_not x = (case x of None \<Rightarrow> True | Some s \<Rightarrow> s = [])"

text \<open>
  The query of the command-line mode, lines 205 to 212, on the parsed \<open>--customer_id\<close>,
  \<open>--start\<close> and \<open>--end\<close>.
\<close>

definition main_query :: "parser \<Rightarrow> store \<Rightarrow> request \<Rightarrow> py_error + (string \<times> int) list" where
  "main_query parse d args =
     (if py_not (arg_customer_id args) \<or> py_not (arg_start args) \<or> py_not (arg_end args)
      then Inl SystemExit
      else hourly_event_count parse d (arg_customer_id args) (arg_start args) (arg_end args))"

subsection \<open>Notions used to state the properties\<close>


text \<open>The list \<open>data\<close> that \<open>batch_commit\<close> builds from the dictionary.\<close>

definition batch_data :: "buffer \<Rightarrow> entry list" where
  "batch_data ec = map (\<lambda>((c, m), n). (c, m, n)) ec"

text \<open>The key under which a line is counted, or the exception its timestamp raises.\<close>

definition row_key :: "parser \<Rightarrow> row \<Rightarrow> py_error + key" where
  "row_key parse r =
     (case rfc_to_utc_dt parse (timestamp r) of
        Inl e \<Rightarrow> Inl e
      | Inr utc_dt \<Rightarrow> Inr (customer_id r, round_to_minute utc_dt))"

text \<open>The state a run is in when it stops, whether it returned or raised.\<close>

definition final_state :: "(py_error \<times> state) + state \<Rightarrow> state" where
  "final_state res = (case res of Inl (e, s) \<Rightarrow> s | Inr s \<Rightarrow> s)"

section \<open>Timestamp normalization\<close>

lemma str_index_None: "str_index s c = None \<longleftrightarrow> c \<notin> set s"
  by (induction s) auto

lemma str_index_less: "str_index s c = Some i \<Longrightarrow> i < length s"
  by (induction s arbitrary: i) (auto split: if_splits)

lemma str_index_append: "str_index s c = Some i \<Longrightarrow> str_index (s @ t) c = Some i"
  by (induction s arbitrary: i) (auto split: if_splits)

lemma rfc_no_plus: "CHR ''+'' \<notin> set ts \<Longrightarrow> rfc_to_utc_dt parse ts = Inl ValueError"
  by (simp add: rfc_to_utc_dt_def pad_tz_info_def str_index_None[THEN iffD2])

lemma pad_short:
  assumes "str_index ts CHR ''+'' = Some i" and "length ts - (i + 1) < 4"
  shows "pad_tz_info ts = Inr (ts @ replicate (4 - (length ts - (i + 1))) CHR ''0'')"
  using assms by (simp add: pad_tz_info_def)

lemma pad_exact:
  assumes "str_index ts CHR ''+'' = Some i" and "length ts - (i + 1) = 4"
  shows "pad_tz_info ts = Inr ts"
  using assms by (simp add: pad_tz_info_def)

lemma padded_length:
  assumes "str_index ts CHR ''+'' = Some i" and "length ts - (i + 1) < 4"
  shows "length (ts @ replicate (4 - (length ts - (i + 1))) CHR ''0'') - (i + 1) = 4"
  using str_index_less[OF assms(1)] assms(2) by simp

lemma rfc_padded:
  assumes "str_index ts CHR ''+'' = Some i" and "length ts - (i + 1) < 4"
  shows "rfc_to_utc_dt parse ts
       = rfc_to_utc_dt parse (ts @ replicate (4 - (length ts - (i + 1))) CHR ''0'')"
proof -
  let ?p = "ts @ replicate (4 - (length ts - (i + 1))) CHR ''0''"
  have "pad_tz_info ?p = Inr ?p"
    by (rule pad_exact[OF str_index_append[OF assms(1)] padded_length[OF assms]])
  then show ?thesis
    by (simp add: rfc_to_utc_dt_def pad_short[OF assms])
qed

lemma rfc_example_full:
  "rfc_to_utc_dt parse ''2021-03-01 14:15:30.500000+0000''
     = Inr \<lparr>year = 2021, month = 3, day = 1, hour = 14, minute = 15, second = 30,
            microsecond = 500000\<rparr>"
  by code_simp

lemma rfc_example_short:
  "rfc_to_utc_dt parse ''2021-03-01 14:15:30.500000+00''
     = Inr \<lparr>year = 2021, month = 3, day = 1, hour = 14, minute = 15, second = 30,
            microsecond = 500000\<rparr>"
  by code_simp

lemma rfc_example_late:
  "rfc_to_utc_dt parse ''2021-03-01 14:15:59.999999+0000''
     = Inr \<lparr>year = 2021, month = 3, day = 1, hour = 14, minute = 15, second = 59,
            microsecond = 999999\<rparr>"
  by code_simp

text \<open>
  C7. When fewer than four characters follow the first \<open>+\<close> of a timestamp,
  \<open>rfc_to_utc_dt\<close> appends zeros until exactly four follow it, the \<open>+\<close> stays where it
  was, and the result is that of the padded string, whatever the parsers make of it. So
  \<open>2021-03-01 14:15:30.500000+00\<close> and \<open>2021-03-01 14:15:30.500000+0000\<close> normalize to
  the same UTC instant, 14:15:30.5 on 2021-03-01.
\<close>

theorem offset_padding:
  assumes "str_index ts CHR ''+'' = Some i" and "length ts - (i + 1) < 4"
  shows "pad_tz_info ts = Inr (ts @ replicate (4 - (length ts - (i + 1))) CHR ''0'')
       \<and> str_index (ts @ replicate (4 - (length ts - (i + 1))) CHR ''0'') CHR ''+'' = Some i
       \<and> length (ts @ replicate (4 - (length ts - (i + 1))) CHR ''0'') - (i + 1) = 4
       \<and> rfc_to_utc_dt parse ts
           = rfc_to_utc_dt parse (ts @ replicate (4 - (length ts - (i + 1))) CHR ''0'')
       \<and> rfc_to_utc_dt parse ''2021-03-01 14:15:30.500000+00''
           = rfc_to_utc_dt parse ''2021-03-01 14:15:30.500000+0000''
       \<and> rfc_to_utc_dt parse ''2021-03-01 14:15:30.500000+0000''
           = Inr \<lparr>year = 2021, month = 3, day = 1, hour = 14, minute = 15, second = 30,
                  microsecond = 500000\<rparr>"
  using pad_short[OF assms] str_index_append[OF assms(1)] padded_length[OF assms]
    rfc_padded[OF assms, of parse] rfc_example_full[of parse] rfc_example_short[of parse]
  by simp

theorem offset_padding_witness:
  "str_index ''2021-03-01 14:15:30.500000+00'' CHR ''+'' = Some 26
   \<and> pad_tz_info ''2021-03-01 14:15:30.500000+00'' = Inr ''2021-03-01 14:15:30.500000+0000''
   \<and> rfc_to_utc_dt (\<lambda>_. Inl ValueError) ''2021-03-01 14:15:30.500000+00''
        = rfc_to_utc_dt (\<lambda>_. Inl ValueError) ''2021-03-01 14:15:30.500000+0000''"
proof -
  have i: "str_index ''2021-03-01 14:15:30.500000+00'' CHR ''+'' = Some 26"
    by code_simp
  have l: "length ''2021-03-01 14:15:30.500000+00'' - (26 + 1) < 4"
    by simp
  have p: "''2021-03-01 14:15:30.500000+00''
             @ replicate (4 - (length ''2021-03-01 14:15:30.500000+00'' - (26 + 1))) CHR ''0''
           = ''2021-03-01 14:15:30.500000+0000''"
    by code_simp
  from offset_padding[OF i l, of "\<lambda>_. Inl ValueError"] show ?thesis
    unfolding p using i by blast
qed

section \<open>The aggregation buffer\<close>

lemma dict_set_keys: "fst ` set (dict_set k v d) = insert k (fst ` set d)"
  by (induction d) auto

lemma dict_set_new: "k \<notin> fst ` set d \<Longrightarrow> dict_set k v d = d @ [(k, v)]"
  by (induction d) auto

lemma dict_set_distinct: "distinct (map fst d) \<Longrightarrow> distinct (map fst (dict_set k v d))"
proof (induction d)
  case Nil
  then show ?case by simp
next
  case (Cons p d)
  have "fst ` set (dict_set k v d) = insert k (fst ` set d)"
    by (rule dict_set_keys)
  with Cons show ?case by auto
qed

lemma dict_set_length: "length (dict_set k v d) \<le> Suc (length d)"
  by (induction d) auto

lemma increment_keys: "fst ` set (increment k ec) = insert k (fst ` set ec)"
  by (simp add: increment_def dict_set_keys)


text \<open>
  C8. An event whose timestamp normalizes to \<open>utc_dt\<close> is counted under the key made of
  its customer and \<open>utc_dt\<close> with seconds and microseconds set to zero, the other fields
  kept; that key is the only one the event can add to the buffer. An event stamped
  \<open>2021-03-01 14:15:30.500000+0000\<close> and one stamped \<open>2021-03-01 14:15:59.999999+0000\<close>
  both land in the bucket 14:15:00 of 2021-03-01, which prints as
  \<open>2021-03-01 14:15:00+00:00\<close>.
\<close>

theorem minute_bucket:
  assumes "rfc_to_utc_dt parse (timestamp r) = Inr utc_dt"
  shows "count_event parse r s
           = Inr (s\<lparr>event_count := increment (customer_id r, round_to_minute utc_dt) (event_count s)\<rparr>)
       \<and> fst ` set (increment (customer_id r, round_to_minute utc_dt) (event_count s))
           = insert (customer_id r, round_to_minute utc_dt) (fst ` set (event_count s))
       \<and> round_to_minute utc_dt
           = \<lparr>year = year utc_dt, month = month utc_dt, day = day utc_dt, hour = hour utc_dt,
              minute = minute utc_dt, second = 0, microsecond = 0\<rparr>
       \<and> count_event parse
            \<lparr>customer_id = c, event_type = e, txn_id = t,
             timestamp = ''2021-03-01 14:15:30.500000+0000''\<rparr>
            \<lparr>event_count = [], db = d\<rparr>
           = Inr \<lparr>event_count =
                    [((c, \<lparr>year = 2021, month = 3, day = 1, hour = 14, minute = 15,
                           second = 0, microsecond = 0\<rparr>), 1)],
                  db = d\<rparr>
       \<and> count_event parse
            \<lparr>customer_id = c, event_type = e, txn_id = t,
             timestamp = ''2021-03-01 14:15:59.999999+0000''\<rparr>
            \<lparr>event_count = [], db = d\<rparr>
           = Inr \<lparr>event_count =
                    [((c, \<lparr>year = 2021, month = 3, day = 1, hour = 14, minute = 15,
                           second = 0, microsecond = 0\<rparr>), 1)],
                  db = d\<rparr>
       \<and> isoformat \<lparr>year = 2021, month = 3, day = 1, hour = 14, minute = 15,
                     second = 0, microsecond = 0\<rparr>
           = ''2021-03-01 14:15:00+00:00''"
proof -
  have a: "count_event parse r s
             = Inr (s\<lparr>event_count := increment (customer_id r, round_to_minute utc_dt) (event_count s)\<rparr>)"
    using assms by (simp add: count_event_def)
  have b: "round_to_minute utc_dt
             = \<lparr>year = year utc_dt, month = month utc_dt, day = day utc_dt, hour = hour utc_dt,
                minute = minute utc_dt, second = 0, microsecond = 0\<rparr>"
    by (simp add: round_to_minute_def)
  have c1: "count_event parse
              \<lparr>customer_id = c, event_type = e, txn_id = t,
               timestamp = ''2021-03-01 14:15:30.500000+0000''\<rparr>
              \<lparr>event_count = [], db = d\<rparr>
            = Inr \<lparr>event_count =
                     [((c, \<lparr>year = 2021, month = 3, day = 1, hour = 14, minute = 15,
                            second = 0, microsecond = 0\<rparr>), 1)],
                   db = d\<rparr>"
    by (simp add: count_event_def rfc_example_full round_to_minute_def increment_def)
  have c2: "count_event parse
              \<lparr>customer_id = c, event_type = e, txn_id = t,
               timestamp = ''2021-03-01 14:15:59.999999+0000''\<rparr>
              \<lparr>event_count = [], db = d\<rparr>
            = Inr \<lparr>event_count =
                     [((c, \<lparr>year = 2021, month = 3, day = 1, hour = 14, minute = 15,
                            second = 0, microsecond = 0\<rparr>), 1)],
                   db = d\<rparr>"
    by (simp add: count_event_def rfc_example_late round_to_minute_def increment_def)
  have f: "isoformat \<lparr>year = 2021, month = 3, day = 1, hour = 14, minute = 15,
                       second = 0, microsecond = 0\<rparr>
             = ''2021-03-01 14:15:00+00:00''"
    by code_simp
  from a b c1 c2 f increment_keys show ?thesis
    by blast
qed

theorem minute_bucket_witness:
  "count_event (\<lambda>_. Inl ValueError)
     \<lparr>customer_id = ''c1'', event_type = ''click'', txn_id = ''t1'',
      timestamp = ''2021-03-01 14:15:30.500000+0000''\<rparr>
     \<lparr>event_count = [], db = \<lparr>events_aggregation = [], committed = [], faults = []\<rparr>\<rparr>
   = Inr \<lparr>event_count =
            [((''c1'', \<lparr>year = 2021, month = 3, day = 1, hour = 14, minute = 15,
                        second = 0, microsecond = 0\<rparr>), 1)],
          db = \<lparr>events_aggregation = [], committed = [], faults = []\<rparr>\<rparr>"
proof -
  have h: "rfc_to_utc_dt (\<lambda>_. Inl ValueError)
             (timestamp \<lparr>customer_id = ''c1'', event_type = ''click'', txn_id = ''t1'',
                         timestamp = ''2021-03-01 14:15:30.500000+0000''\<rparr>)
           = Inr \<lparr>year = 2021, month = 3, day = 1, hour = 14, minute = 15, second = 30,
                  microsecond = 500000\<rparr>"
    by (simp add: rfc_example_full)
  from minute_bucket[OF h, of "\<lparr>event_count = [], db = \<lparr>events_aggregation = [], committed = [], faults = []\<rparr>\<rparr>"]
  show ?thesis
    by (simp add: round_to_minute_def increment_def)
qed

section \<open>The upsert\<close>


lemma upsert_keys: "fst ` set (upsert k n t) = insert k (fst ` set t)"
  by (induction t) auto

lemma upsert_distinct: "distinct (map fst t) \<Longrightarrow> distinct (map fst (upsert k n t))"
proof (induction t)
  case Nil
  then show ?case by simp
next
  case (Cons r t)
  have "fst ` set (upsert k n t) = insert k (fst ` set t)"
    by (rule upsert_keys)
  with Cons show ?case by auto
qed

lemma executemany_ok:
  "executemany None data t = Inr (fold (\<lambda>(c, m, n). upsert (c, m) n) data t)"
  by (induction data arbitrary: t) auto



lemma fold_batch_data:
  "fold (\<lambda>(c, m, n). upsert (c, m) n) (batch_data ec) t = fold (\<lambda>(k, n). upsert k n) ec t"
  by (induction ec arbitrary: t) (auto simp: batch_data_def)








section \<open>The ingestion loop\<close>

lemma count_event_row_key:
  "count_event parse r s
     = (case row_key parse r of
          Inl e \<Rightarrow> Inl (e, s)
        | Inr k \<Rightarrow> Inr (s\<lparr>event_count := increment k (event_count s)\<rparr>))"
  by (simp add: count_event_def row_key_def split: sum.splits)

lemma process_rows_append:
  "process_rows thr parse (xs @ ys) s
     = (case process_rows thr parse xs s of
          Inl x \<Rightarrow> Inl x
        | Inr s' \<Rightarrow> process_rows thr parse ys s')"
  by (induction xs arbitrary: s) (auto split: sum.splits)

lemma increment_length: "length (increment k ec) \<le> Suc (length ec)"
  by (simp add: increment_def dict_set_length)

lemma increment_distinct: "distinct (map fst ec) \<Longrightarrow> distinct (map fst (increment k ec))"
  by (simp add: increment_def dict_set_distinct)

lemma flush_if_full_buffer:
  "length (event_count (final_state (flush_if_full thr s))) \<le> length (event_count s)
   \<and> (distinct (map fst (event_count s))
        \<longrightarrow> distinct (map fst (event_count (final_state (flush_if_full thr s)))))"
  by (auto simp: flush_if_full_def final_state_def split: sum.splits)

lemma flush_if_full_below:
  "flush_if_full thr s = Inr s' \<Longrightarrow> 0 < thr \<Longrightarrow> length (event_count s) \<le> thr
     \<Longrightarrow> length (event_count s') < thr"
  by (auto simp: flush_if_full_def split: if_splits sum.splits)

lemma process_row_bound:
  assumes "0 < thr" and "length (event_count s) \<le> thr" and "distinct (map fst (event_count s))"
  shows "length (event_count (final_state (process_row thr parse r s))) \<le> thr
       \<and> distinct (map fst (event_count (final_state (process_row thr parse r s))))"
proof (cases "flush_if_full thr s")
  case (Inl x)
  with flush_if_full_buffer[of thr s] assms show ?thesis
    by (auto simp: process_row_def)
next
  case (Inr s')
  from flush_if_full_below[OF Inr assms(1) assms(2)]
  have l: "length (event_count s') < thr" .
  from flush_if_full_buffer[of thr s] Inr assms(3)
  have d: "distinct (map fst (event_count s'))"
    by (simp add: final_state_def)
  show ?thesis
  proof (cases "row_key parse r")
    case (Inl e)
    with Inr l d show ?thesis
      by (simp add: process_row_def count_event_row_key final_state_def)
  next
    case (Inr k)
    have "length (increment k (event_count s')) \<le> thr"
      using increment_length[of k "event_count s'"] l by simp
    with Inr \<open>flush_if_full thr s = Inr s'\<close> d show ?thesis
      by (simp add: process_row_def count_event_row_key final_state_def increment_distinct)
  qed
qed

lemma process_rows_bound:
  assumes "0 < thr"
  shows "length (event_count s) \<le> thr \<Longrightarrow> distinct (map fst (event_count s)) \<Longrightarrow>
         length (event_count (final_state (process_rows thr parse rows s))) \<le> thr
       \<and> distinct (map fst (event_count (final_state (process_rows thr parse rows s))))"
proof (induction rows arbitrary: s)
  case Nil
  then show ?case by (simp add: final_state_def)
next
  case (Cons r rows)
  from process_row_bound[OF assms Cons.prems, of parse r]
  have b: "length (event_count (final_state (process_row thr parse r s))) \<le> thr"
    "distinct (map fst (event_count (final_state (process_row thr parse r s))))"
    by simp_all
  show ?case
  proof (cases "process_row thr parse r s")
    case (Inl x)
    with b show ?thesis by simp
  next
    case (Inr s')
    with b have "length (event_count s') \<le> thr" "distinct (map fst (event_count s'))"
      by (simp_all add: final_state_def)
    from Cons.IH[OF this] Inr show ?thesis by simp
  qed
qed

text \<open>
  C10. However many lines of the file have been processed, and whether the loop is still
  running or has stopped on an exception, the dictionary \<open>event_count\<close> of
  \<open>process_csv\<close> holds at most 1000 entries, all with different keys; the same is true
  when \<open>process_csv\<close> is over.
\<close>

theorem buffer_bound:
  "length (event_count (final_state
      (process_rows 1000 parse (take n rows) \<lparr>event_count = [], db = d\<rparr>))) \<le> 1000
   \<and> distinct (map fst (event_count (final_state
      (process_rows 1000 parse (take n rows) \<lparr>event_count = [], db = d\<rparr>))))
   \<and> length (event_count (final_state (process_csv parse rows d))) \<le> 1000"
proof -
  have a: "length (event_count (final_state
             (process_rows 1000 parse rs \<lparr>event_count = [], db = d\<rparr>))) \<le> 1000
         \<and> distinct (map fst (event_count (final_state
             (process_rows 1000 parse rs \<lparr>event_count = [], db = d\<rparr>))))" for rs
    by (rule process_rows_bound) simp_all
  have "length (event_count (final_state (process_csv parse rows d))) \<le> 1000"
    using a[of rows]
    by (auto simp: process_csv_def process_csv_threshold_def final_state_def split: sum.splits)
  with a[of "take n rows"] show ?thesis by simp
qed

theorem buffer_bound_witness:
  "length (event_count (final_state
      (process_rows 1000 (\<lambda>_. Inl ValueError)
         (take 1 [\<lparr>customer_id = ''c1'', event_type = ''click'', txn_id = ''t1'',
                    timestamp = ''2021-03-01 14:15:30.500000+0000''\<rparr>])
         \<lparr>event_count = [], db = \<lparr>events_aggregation = [], committed = [], faults = []\<rparr>\<rparr>)))
     \<le> 1000"
  by (rule conjunct1[OF buffer_bound])

lemma batch_commit_Inr:
  assumes "batch_commit ec d = Inr d'"
  shows "d' = d\<lparr>faults := tl (faults d),
                events_aggregation := fold (\<lambda>(k, n). upsert k n) ec (events_aggregation d),
                committed := committed d @ [batch_data ec]\<rparr>"
proof -
  from assms have f: "(case faults d of [] \<Rightarrow> None | f # _ \<Rightarrow> f) = None"
    by (auto simp: batch_commit_def Let_def split: sum.splits option.splits)
  with assms show ?thesis
    by (auto simp: batch_commit_def Let_def executemany_ok
        fold_batch_data[unfolded batch_data_def] batch_data_def)
qed


lemma process_row_bad:
  assumes "row_key parse r = Inl e" and "flush_if_full thr s = Inr s'"
  shows "process_row thr parse r s = Inl (e, s')"
  using assms by (simp add: process_row_def count_event_row_key)

lemma row_key_no_plus:
  "CHR ''+'' \<notin> set (timestamp r) \<Longrightarrow> row_key parse r = Inl ValueError"
  by (simp add: row_key_def rfc_no_plus)

lemma flush_if_full_Inr:
  assumes "flush_if_full thr s = Inr s'"
  shows "event_count s' = (if thr \<le> length (event_count s) then [] else event_count s)
       \<and> committed (db s')
           = committed (db s)
               @ (if thr \<le> length (event_count s) then [batch_data (event_count s)] else [])
       \<and> events_aggregation (db s')
           = (if thr \<le> length (event_count s)
              then fold (\<lambda>(k, n). upsert k n) (event_count s) (events_aggregation (db s))
              else events_aggregation (db s))"
proof (cases "thr \<le> length (event_count s)")
  case True
  with assms obtain d' where d: "batch_commit (event_count s) (db s) = Inr d'"
    and s': "s' = \<lparr>event_count = [], db = d'\<rparr>"
    by (auto simp: flush_if_full_def split: sum.splits)
  from batch_commit_Inr[OF d] s' True show ?thesis by simp
next
  case False
  with assms show ?thesis by (simp add: flush_if_full_def)
qed

text \<open>
  C5. A timestamp without \<open>+\<close> makes \<open>rfc_to_utc_dt\<close> raise (the ValueError of
  \<open>timestamp.index('+')\<close>, the failure the specification calls MalformedTimestamp). When
  the lines before such a line were ingested without error, \<open>process_csv\<close> stops at that
  line with this exception, whatever follows it in the file: the database is the one the
  threshold check of that line left, which holds the batches flushed so far, and the
  entries counted since the last flush are still in the dictionary and in no batch.
\<close>

theorem malformed_timestamp:
  assumes "CHR ''+'' \<notin> set (timestamp bad)"
    and "process_rows 1000 parse pre \<lparr>event_count = [], db = d\<rparr> = Inr s1"
    and "flush_if_full 1000 s1 = Inr s2"
  shows "rfc_to_utc_dt parse (timestamp bad) = Inl ValueError
       \<and> process_csv parse (pre @ bad # post) d = Inl (ValueError, s2)
       \<and> event_count s2 = (if 1000 \<le> length (event_count s1) then [] else event_count s1)
       \<and> committed (db s2)
           = committed (db s1)
               @ (if 1000 \<le> length (event_count s1) then [batch_data (event_count s1)] else [])"
proof -
  have a: "rfc_to_utc_dt parse (timestamp bad) = Inl ValueError"
    by (rule rfc_no_plus[OF assms(1)])
  have "process_row 1000 parse bad s1 = Inl (ValueError, s2)"
    by (rule process_row_bad[OF row_key_no_plus[OF assms(1)] assms(3)])
  then have "process_rows 1000 parse (pre @ bad # post) \<lparr>event_count = [], db = d\<rparr>
               = Inl (ValueError, s2)"
    by (simp add: process_rows_append assms(2))
  then have b: "process_csv parse (pre @ bad # post) d = Inl (ValueError, s2)"
    by (simp add: process_csv_def process_csv_threshold_def)
  from a b flush_if_full_Inr[OF assms(3)] show ?thesis by simp
qed

theorem malformed_timestamp_witness:
  "process_csv (\<lambda>_. Inl ValueError)
     ([\<lparr>customer_id = ''c1'', event_type = ''click'', txn_id = ''t1'',
        timestamp = ''2021-03-01 14:15:30.500000+0000''\<rparr>]
      @ \<lparr>customer_id = ''c2'', event_type = ''click'', txn_id = ''t2'',
          timestamp = ''2021-03-01 14:16:30''\<rparr>
      # [\<lparr>customer_id = ''c3'', event_type = ''click'', txn_id = ''t3'',
          timestamp = ''2021-03-01 14:15:30.500000+0000''\<rparr>])
     \<lparr>events_aggregation = [], committed = [], faults = []\<rparr>
   = Inl (ValueError,
          \<lparr>event_count =
             [((''c1'', \<lparr>year = 2021, month = 3, day = 1, hour = 14, minute = 15,
                         second = 0, microsecond = 0\<rparr>), 1)],
           db = \<lparr>events_aggregation = [], committed = [], faults = []\<rparr>\<rparr>)"
proof -
  let ?bad = "\<lparr>customer_id = ''c2'', event_type = ''click'', txn_id = ''t2'',
               timestamp = ''2021-03-01 14:16:30''\<rparr>"
  let ?d = "\<lparr>events_aggregation = [], committed = [], faults = []\<rparr>"
  let ?s = "\<lparr>event_count =
               [((''c1'', \<lparr>year = 2021, month = 3, day = 1, hour = 14, minute = 15,
                           second = 0, microsecond = 0\<rparr>), 1)],
             db = ?d\<rparr>"
  have h1: "CHR ''+'' \<notin> set (timestamp ?bad)"
    by simp
  have h2: "process_rows 1000 (\<lambda>_. Inl ValueError)
              [\<lparr>customer_id = ''c1'', event_type = ''click'', txn_id = ''t1'',
                timestamp = ''2021-03-01 14:15:30.500000+0000''\<rparr>]
              \<lparr>event_count = [], db = ?d\<rparr> = Inr ?s"
    by (simp add: process_row_def flush_if_full_def count_event_def rfc_example_full
        round_to_minute_def increment_def)
  have h3: "flush_if_full 1000 ?s = Inr ?s"
    by (simp add: flush_if_full_def)
  from malformed_timestamp[OF h1 h2 h3] show ?thesis
    by blast
qed

section \<open>When the buffer is flushed\<close>









section \<open>The hourly roll-up\<close>


lemma group_distinct:
  "distinct (map fst acc) \<Longrightarrow>
   distinct (map fst (fold (\<lambda>((c, m), n) groups. upsert (f m) n groups) xs acc))"
  by (induction xs arbitrary: acc) (auto simp: upsert_distinct)

lemma hour_key_inj: "hour_key h = hour_key h' \<Longrightarrow> h = h'"
  by (simp add: hour_key_def)

lemma fold_dict_set:
  "distinct (map fst gs) \<Longrightarrow> fst ` set acc \<inter> hour_key ` fst ` set gs = {} \<Longrightarrow>
   fold (\<lambda>(h, total) event_counts. dict_set (hour_key h) total event_counts) gs acc
     = acc @ map (\<lambda>(h, total). (hour_key h, total)) gs"
proof (induction gs arbitrary: acc)
  case Nil
  show ?case by simp
next
  case (Cons g gs)
  obtain h t where g: "g = (h, t)" by (cases g)
  from Cons.prems(2) g have new: "hour_key h \<notin> fst ` set acc"
    by auto
  have disj: "fst ` set (acc @ [(hour_key h, t)]) \<inter> hour_key ` fst ` set gs = {}"
    using Cons.prems g by (auto dest: hour_key_inj)
  from Cons.prems(1) have "distinct (map fst gs)" by simp
  from Cons.IH[OF this disj] show ?case
    by (simp add: g dict_set_new[OF new])
qed


lemma hourly_event_count_eq:
  assumes "rfc_to_utc_dt parse start = Inr start_dt" and "rfc_to_utc_dt parse end = Inr end_dt"
  shows "hourly_event_count parse d customer (Some start) (Some end)
       = Inr (map (\<lambda>(h, total). (hour_key h, total))
                (select_hours (events_aggregation d) (isoformat start_dt) (isoformat end_dt)
                   customer))"
proof -
  have "distinct (map fst (select_hours (events_aggregation d) (isoformat start_dt)
                             (isoformat end_dt) customer))"
    unfolding select_hours_def by (rule group_distinct) simp
  then show ?thesis
    using assms by (simp add: hourly_event_count_def fold_dict_set)
qed








section \<open>Requests with a parameter missing\<close>

lemma select_hours_null: "select_hours t a b None = []"
proof -
  have "filter (\<lambda>((c, m), n). a \<le> isoformat m \<and> isoformat m < b \<and> None = Some c) t = []"
    by (induction t) auto
  then show ?thesis by (simp add: select_hours_def)
qed

text \<open>
  C9. The command-line mode refuses a query when \<open>--customer_id\<close>, \<open>--start\<close> or \<open>--end\<close>
  is missing (it prints a message and exits). The route does not check: without
  \<open>customer_id\<close> it runs the SELECT with a NULL parameter and answers with an empty dict,
  and without \<open>start\<close> (or \<open>end\<close>) it fails on \<open>None.index\<close> with an AttributeError, which
  Flask turns into a server error, not a client error.
\<close>

theorem route_missing_parameter:
  "hourly_event_count_route parse d
     \<lparr>arg_customer_id = None, arg_start = Some ''2021-03-01 14:30:00.000000+0000'',
      arg_end = Some ''2021-03-01 15:30:00.000000+0000''\<rparr> = Inr []
   \<and> main_query parse d
     \<lparr>arg_customer_id = None, arg_start = Some ''2021-03-01 14:30:00.000000+0000'',
      arg_end = Some ''2021-03-01 15:30:00.000000+0000''\<rparr> = Inl SystemExit
   \<and> hourly_event_count_route parse d
     \<lparr>arg_customer_id = Some ''c1'', arg_start = None,
      arg_end = Some ''2021-03-01 15:30:00.000000+0000''\<rparr> = Inl AttributeError
   \<and> hourly_event_count_route parse d
     \<lparr>arg_customer_id = Some ''c1'', arg_start = Some ''2021-03-01 14:30:00.000000+0000'',
      arg_end = None\<rparr> = Inl AttributeError"
proof -
  have x1: "rfc_to_utc_dt parse ''2021-03-01 14:30:00.000000+0000'' = Inr \<lparr>year = 2021, month = 3, day = 1, hour = 14, minute = 30, second = 0, microsecond = 0\<rparr>"
    by code_simp
  have x2: "rfc_to_utc_dt parse ''2021-03-01 15:30:00.000000+0000'' = Inr \<lparr>year = 2021, month = 3, day = 1, hour = 15, minute = 30, second = 0, microsecond = 0\<rparr>"
    by code_simp
  have a: "hourly_event_count_route parse d
             \<lparr>arg_customer_id = None, arg_start = Some ''2021-03-01 14:30:00.000000+0000'',
              arg_end = Some ''2021-03-01 15:30:00.000000+0000''\<rparr> = Inr []"
    by (simp add: hourly_event_count_route_def hourly_event_count_eq[OF x1 x2] select_hours_null)
  have b: "main_query parse d
             \<lparr>arg_customer_id = None, arg_start = Some ''2021-03-01 14:30:00.000000+0000'',
              arg_end = Some ''2021-03-01 15:30:00.000000+0000''\<rparr> = Inl SystemExit"
    by (simp add: main_query_def py_not_def)
  have c: "hourly_event_count_route parse d
             \<lparr>arg_customer_id = Some ''c1'', arg_start = None,
              arg_end = Some ''2021-03-01 15:30:00.000000+0000''\<rparr> = Inl AttributeError"
    by (simp add: hourly_event_count_route_def hourly_event_count_def)
  have e: "hourly_event_count_route parse d
             \<lparr>arg_customer_id = Some ''c1'',
              arg_start = Some ''2021-03-01 14:30:00.000000+0000'', arg_end = None\<rparr>
           = Inl AttributeError"
    by (simp add: hourly_event_count_route_def hourly_event_count_def x1)
  from a b c e show ?thesis by blast
qed

section \<open>A flush that fails\<close>






end
